theory Spec2Isabelle
  imports Main "HOL-Library.Word"
begin

unbundle bit_operations_syntax

section \<open>BME688 raw-data sketches: machine types\<close>

type_synonym u8 = "8 word"
type_synonym u16 = "16 word"
type_synonym u32 = "32 word"

section \<open>Arduino \<open>String\<close> operations used by the sketches\<close>

text \<open>
  The sketches build every line with the Arduino \<open>String\<close> class. Its operations are
  modelled on \<open>string\<close> (a list of bytes) after their documented behaviour:
  \<open>trim\<close> strips leading and trailing white space, \<open>indexOf\<close> gives the position of
  the first occurrence or \<open>-1\<close>, \<open>substring\<close> takes a half-open range clipped to the
  length, \<open>toInt\<close> is C's \<open>atol\<close> (optional white space, optional sign, then the
  longest run of decimal digits; 0 when there is none) on a 32-bit \<open>long\<close>, and
  \<open>String(n)\<close> prints an integer in decimal.
\<close>

definition CR :: char where "CR = CHR 0x0D"
definition LF :: char where "LF = CHR 0x0A"

definition isspace :: "char \<Rightarrow> bool" where
  "isspace c = (c \<in> set [CHR '' '', CHR 0x09, CHR 0x0A, CHR 0x0B, CHR 0x0C, CHR 0x0D])"

definition isdigit :: "char \<Rightarrow> bool" where
  "isdigit c = (c \<in> set ''0123456789'')"

definition digit_val :: "char \<Rightarrow> int" where
  "digit_val c = of_char c - 48"

definition trim :: "string \<Rightarrow> string" where
  "trim s = rev (dropWhile isspace (rev (dropWhile isspace s)))"

fun index_from :: "int \<Rightarrow> char \<Rightarrow> string \<Rightarrow> int" where
  "index_from k c [] = -1"
| "index_from k c (x # xs) = (if x = c then k else index_from (k + 1) c xs)"

definition indexOf :: "string \<Rightarrow> char \<Rightarrow> int" where
  "indexOf s c = index_from 0 c s"

definition substring :: "string \<Rightarrow> nat \<Rightarrow> nat \<Rightarrow> string" where
  "substring s left right =
     (let l = (if left > right then right else left);
          r = (if left > right then left else right)
      in if l \<ge> length s then []
         else take ((if r > length s then length s else r) - l) (drop l s))"

fun atol_digits :: "int \<Rightarrow> string \<Rightarrow> int" where
  "atol_digits acc [] = acc"
| "atol_digits acc (c # cs) =
     (if isdigit c then atol_digits (acc * 10 + digit_val c) cs else acc)"

definition LONG_MAX :: int where "LONG_MAX = 2147483647"
definition LONG_MIN :: int where "LONG_MIN = - 2147483648"

definition clamp_long :: "int \<Rightarrow> int" where
  "clamp_long n = (if n > LONG_MAX then LONG_MAX else if n < LONG_MIN then LONG_MIN else n)"

definition atol :: "string \<Rightarrow> int" where
  "atol s =
     (let t = dropWhile isspace s
      in clamp_long
           (case t of
              [] \<Rightarrow> 0
            | c # cs \<Rightarrow>
                if c = CHR ''-'' then - atol_digits 0 cs
                else if c = CHR ''+'' then atol_digits 0 cs
                else atol_digits 0 t))"

definition toInt :: "string \<Rightarrow> int" where
  "toInt s = atol s"

fun dec :: "nat \<Rightarrow> string" where
  "dec n = (if n < 10 then [''0123456789'' ! n] else dec (n div 10) @ [''0123456789'' ! (n mod 10)])"

declare dec.simps [simp del]

definition String_int :: "int \<Rightarrow> string" where
  "String_int n = (if n < 0 then CHR ''-'' # dec (nat (- n)) else dec (nat n))"

section \<open>The board: serial port, clock and LED\<close>

text \<open>
  \<open>tx\<close> is the byte stream written to \<open>Serial\<close>. \<open>rx\<close> is what the host will send:
  one entry per \<open>Serial.readString()\<close> result, with a flag that tells whether
  \<open>Serial.available()\<close> is already non-zero again when that read returns (more bytes
  arrived while the read was timing out). \<open>avail\<close> is the current answer of
  \<open>Serial.available()\<close>. \<open>host_opens\<close> is the number of 10 ms polls after which the
  host opens the port (\<open>None\<close>: never). \<open>clock\<close> is the millisecond counter; only
  \<open>delay\<close> is modelled as advancing it.
\<close>

record io =
  tx :: string
  rx :: "(string \<times> bool) list"
  avail :: bool
  host_opens :: "nat option"
  clock :: u32
  led_output :: bool
  led :: bool

definition Serial_print :: "string \<Rightarrow> io \<Rightarrow> io" where
  "Serial_print s b = b\<lparr>tx := tx b @ s\<rparr>"

definition Serial_println :: "string \<Rightarrow> io \<Rightarrow> io" where
  "Serial_println s b = b\<lparr>tx := tx b @ s @ [CR, LF]\<rparr>"

definition Serial_available :: "io \<Rightarrow> bool" where
  "Serial_available b = (avail b \<and> rx b \<noteq> [])"

definition readString :: "io \<Rightarrow> string \<times> io" where
  "readString b =
     (case rx b of
        [] \<Rightarrow> ([], b\<lparr>avail := False\<rparr>)
      | (s, pending) # rest \<Rightarrow> (s, b\<lparr>rx := rest, avail := pending\<rparr>))"

definition wait_available :: "io \<Rightarrow> io option" where
  \<comment> \<open>\<open>while (!Serial.available());\<close> blocks for ever when the host sends nothing more\<close>
  "wait_available b = (if rx b = [] then None else Some (b\<lparr>avail := True\<rparr>))"

definition delay :: "nat \<Rightarrow> io \<Rightarrow> io" where
  "delay ms b = b\<lparr>clock := clock b + of_nat ms\<rparr>"

definition millis :: "io \<Rightarrow> u32" where
  "millis b = clock b"

section \<open>Configuration handshake of the single-sensor sketch\<close>

text \<open>
  \<open>tempProf\<close> and \<open>mulProf\<close> are the two variable-length arrays of \<open>setup\<close>; a slot
  that was never written holds \<open>None\<close>.
\<close>

record profile =
  tempProf :: "u16 option list"
  mulProf :: "u16 option list"

definition comma_of :: "string \<Rightarrow> int" where
  \<comment> \<open>\<open>input.trim(); int comma = input.indexOf(",");\<close>\<close>
  "comma_of raw = indexOf (trim raw) CHR '',''"

definition parsed_temp :: "string \<Rightarrow> int" where
  \<comment> \<open>\<open>input.substring(0,comma).toInt()\<close>\<close>
  "parsed_temp raw = toInt (substring (trim raw) 0 (nat (comma_of raw)))"

definition parsed_mult :: "string \<Rightarrow> int" where
  \<comment> \<open>\<open>input.substring(comma+1,input.length()).toInt()\<close>\<close>
  "parsed_mult raw = toInt (substring (trim raw) (nat (comma_of raw + 1)) (length (trim raw)))"

definition parse_line :: "int \<Rightarrow> string \<Rightarrow> profile \<times> io \<Rightarrow> profile \<times> io" where
  \<comment> \<open>the body of the inner \<open>while\<close> after \<open>readString\<close>; index \<open>i\<close> is in range in every
     call, so the echo reads back the values just stored\<close>
  "parse_line i raw pb =
     (if comma_of raw > 0 then
        (let t = (word_of_int (parsed_temp raw) :: u16);
             m = (word_of_int (parsed_mult raw) :: u16);
             p1 = (fst pb)\<lparr>tempProf := (tempProf (fst pb))[nat i := Some t],
                           mulProf := (mulProf (fst pb))[nat i := Some m]\<rparr>
         in (p1, Serial_println (String_int (uint t) @ '','' @ String_int (uint m) @ '','' @ String_int i)
                   (snd pb)))
      else pb)"

function recv_burst :: "int \<Rightarrow> profile \<times> io \<Rightarrow> profile \<times> io" where
  "recv_burst i pb =
     (if Serial_available (snd pb)
      then recv_burst i (parse_line i (fst (readString (snd pb))) (fst pb, snd (readString (snd pb))))
      else pb)"
  by pat_completeness auto

termination recv_burst
proof (relation "measure (\<lambda>(i, pb). length (rx (snd pb)))")
  show "wf (measure (\<lambda>(i, pb). length (rx (snd pb))))"
    by simp
next
  fix i :: int and pb :: "profile \<times> io"
  assume a: "Serial_available (snd pb)"
  have "rx (snd (parse_line i (fst (readString (snd pb))) (fst pb, snd (readString (snd pb)))))
          = rx (snd (readString (snd pb)))"
    by (simp add: parse_line_def Let_def Serial_println_def)
  moreover from a have "length (rx (snd (readString (snd pb)))) < length (rx (snd pb))"
    by (cases "rx (snd pb)") (auto simp: Serial_available_def readString_def)
  ultimately show
    "((i, parse_line i (fst (readString (snd pb))) (fst pb, snd (readString (snd pb)))), (i, pb))
       \<in> measure (\<lambda>(i, pb). length (rx (snd pb)))"
    by simp
qed

declare recv_burst.simps [simp del]

function config_loop :: "int \<Rightarrow> int \<Rightarrow> profile \<times> io \<Rightarrow> (profile \<times> io) option" where
  "config_loop i profileLen pb =
     (if i < profileLen then
        (case wait_available (snd pb) of
           None \<Rightarrow> None
         | Some b1 \<Rightarrow> config_loop (i + 1) profileLen (recv_burst i (fst pb, b1)))
      else Some pb)"
  by pat_completeness auto

termination config_loop
  by (relation "measure (\<lambda>(i, n, pb). nat (n - i))") simp_all

declare config_loop.simps [simp del]

definition recv_profile :: "io \<Rightarrow> (int \<times> profile \<times> io) option" where
  \<comment> \<open>lines 89 to 123 of \<open>setup\<close>: read the length, echo it, then fill the arrays\<close>
  "recv_profile b =
     (case wait_available b of
        None \<Rightarrow> None
      | Some b1 \<Rightarrow>
          (let profileLen = toInt (fst (readString b1));
               b2 = Serial_println (String_int profileLen) (snd (readString b1));
               p0 = \<lparr>tempProf = replicate (nat profileLen) None,
                     mulProf = replicate (nat profileLen) None\<rparr>
           in map_option (\<lambda>pb. (profileLen, fst pb, snd pb)) (config_loop 0 profileLen (p0, b2))))"

section \<open>The sensor driver as a parameter\<close>

text \<open>
  \<open>bme68xLibrary\<close> is a vendor library. The sketches are modelled
  over any driver: \<open>'s\<close> is the state of one \<open>Bme68x\<close> object (with the sensor behind
  it), \<open>'f\<close> the type of the floating-point fields, which the sketches only hand to
  \<open>String\<close>. The record below holds the library's constants and the member functions
  the sketches call; \<open>checkStatus\<close> and \<open>statusString\<close> only read the object, every
  other call may change it.
\<close>

record 'f bme68xData =
  status :: u8
  gas_index :: u8
  temperature :: 'f
  pressure :: 'f
  humidity :: 'f
  gas_resistance :: 'f

record ('s, 'f) lib =
  GASM_VALID_MSK :: u8
  HEAT_STAB_MSK :: u8
  NEW_DATA_MSK :: u8
  PARALLEL_MODE :: u8
  bme_begin :: "nat \<Rightarrow> 's \<Rightarrow> 's"
  setTPH :: "'s \<Rightarrow> 's"
  getMeasDur :: "u8 \<Rightarrow> 's \<Rightarrow> u32"
  setHeaterProf :: "u16 option list \<Rightarrow> u16 option list \<Rightarrow> u16 \<Rightarrow> u8 \<Rightarrow> 's \<Rightarrow> 's"
  setOpMode :: "u8 \<Rightarrow> 's \<Rightarrow> 's"
  fetchData :: "'s \<Rightarrow> u8 \<times> 's"
  getData :: "'f bme68xData \<Rightarrow> 's \<Rightarrow> (u8 \<times> 'f bme68xData) \<times> 's"
  getUniqueId :: "'s \<Rightarrow> u32 \<times> 's"
  checkStatus :: "'s \<Rightarrow> int"
  statusString :: "'s \<Rightarrow> string"
  String_float :: "'f \<Rightarrow> string"

definition MEAS_DUR :: nat where "MEAS_DUR = 140"
definition PIN_CS :: nat where "PIN_CS = 2"
definition NUM_SENSORS :: nat where "NUM_SENSORS = 2"

definition BME68X_OK :: int where "BME68X_OK = 0"
definition BME68X_WARNING :: int where "BME68X_WARNING = 1"
definition BME68X_ERROR :: int where "BME68X_ERROR = - 1"

definition NEW_GAS_MEAS :: "('s, 'f) lib \<Rightarrow> u8" where
  "NEW_GAS_MEAS L = (GASM_VALID_MSK L OR HEAT_STAB_MSK L OR NEW_DATA_MSK L)"

section \<open>Health check and halt\<close>

text \<open>
  A call either returns, or ends in \<open>for (;;) errLeds();\<close>. \<open>Halted b\<close> says that
  control entered that loop with the board in state \<open>b\<close> and never leaves it.
\<close>

datatype 'a outcome = Returns 'a | Halted io

definition errLeds :: "io \<Rightarrow> io" where
  "errLeds b = delay 100 ((delay 100 (b\<lparr>led_output := True, led := True\<rparr>))\<lparr>led := False\<rparr>)"

partial_function (option) halt_loop :: "io \<Rightarrow> io option" where
  "halt_loop b = halt_loop (errLeds b)"

definition checkSensorStatus :: "('s, 'f) lib \<Rightarrow> 's \<Rightarrow> io \<Rightarrow> io outcome" where
  "checkSensorStatus L s b =
     (if checkStatus L s \<noteq> 0 then
        (if checkStatus L s = BME68X_ERROR then
           (let b1 = Serial_println (''Sensor error:'' @ statusString L s) b
            in case halt_loop b1 of None \<Rightarrow> Halted b1 | Some b2 \<Rightarrow> Returns b2)
         else if checkStatus L s = BME68X_WARNING then
           Returns (Serial_println (''Sensor Warning:'' @ statusString L s) b)
         else Returns b)
      else Returns b)"

definition and_then :: "io outcome \<Rightarrow> (io \<Rightarrow> 'a outcome option) \<Rightarrow> 'a outcome option" where
  "and_then r k = (case r of Halted b \<Rightarrow> Some (Halted b) | Returns b \<Rightarrow> k b)"

section \<open>Polling loop\<close>

text \<open>
  Both sketches print a record with the same nine statements; the sensor index \<open>i\<close>
  is the literal 0 in the single-sensor sketch.
\<close>

definition print_fields :: "('s, 'f) lib \<Rightarrow> nat \<Rightarrow> 'f bme68xData \<Rightarrow> 's \<times> io \<Rightarrow> 's \<times> io" where
  "print_fields L i d sb =
     (let b1 = Serial_print (String_int (int i) @ '', '') (snd sb);
          s1 = snd (getUniqueId L (fst sb));
          b2 = Serial_print (dec (unat (fst (getUniqueId L (fst sb)))) @ '', '') b1;
          b3 = Serial_print (dec (unat (millis b2)) @ '', '') b2;
          b4 = Serial_print (String_float L (temperature d) @ '', '') b3;
          b5 = Serial_print (String_float L (pressure d) @ '', '') b4;
          b6 = Serial_print (String_float L (humidity d) @ '', '') b5;
          b7 = Serial_print (String_float L (gas_resistance d) @ '', '') b6;
          b8 = Serial_print (String_int (checkStatus L s1) @ '', '') b7;
          b9 = Serial_println (dec (unat (gas_index d))) b8
      in (s1, b9))"

definition print_if_new :: "('s, 'f) lib \<Rightarrow> nat \<Rightarrow> 'f bme68xData \<Rightarrow> 's \<times> io \<Rightarrow> 's \<times> io" where
  "print_if_new L i d sb = (if status d = NEW_GAS_MEAS L then print_fields L i d sb else sb)"

partial_function (option) pull_loop ::
  "('s, 'f) lib \<Rightarrow> nat \<Rightarrow> 'f bme68xData \<Rightarrow> 's \<times> io \<Rightarrow> ('s \<times> io) outcome option" where
  "pull_loop L i data sb =
     (let nFieldsLeft = fst (fst (getData L data (fst sb)));
          data1 = snd (fst (getData L data (fst sb)));
          sb1 = print_if_new L i data1 (snd (getData L data (fst sb)), snd sb)
      in case checkSensorStatus L (fst sb1) (snd sb1) of
           Halted b \<Rightarrow> Some (Halted b)
         | Returns b \<Rightarrow>
             if nFieldsLeft \<noteq> 0 then pull_loop L i data1 (fst sb1, b)
             else Some (Returns (fst sb1, b)))"

definition poll_sensor ::
  "('s, 'f) lib \<Rightarrow> nat \<Rightarrow> 'f bme68xData \<Rightarrow> 's \<times> io \<Rightarrow> ('s \<times> io) outcome option" where
  "poll_sensor L i data sb =
     (if fst (fetchData L (fst sb)) \<noteq> 0
      then pull_loop L i data (snd (fetchData L (fst sb)), snd sb)
      else Some (Returns (snd (fetchData L (fst sb)), snd sb)))"

definition loop ::
  "('s, 'f) lib \<Rightarrow> 'f bme68xData \<Rightarrow> 's \<times> io \<Rightarrow> ('s \<times> io) outcome option" where
  \<comment> \<open>single-sensor sketch; \<open>data\<close> is the uninitialised local\<close>
  "loop L data sb = poll_sensor L 0 data (fst sb, delay MEAS_DUR (snd sb))"

function sensors_loop ::
  "('s, 'f) lib \<Rightarrow> nat \<Rightarrow> 'f bme68xData list \<Rightarrow> 's list \<times> io \<Rightarrow> ('s list \<times> io) outcome option" where
  "sensors_loop L i data sb =
     (if i < NUM_SENSORS then
        (case poll_sensor L i (data ! i) (fst sb ! i, snd sb) of
           None \<Rightarrow> None
         | Some (Halted b) \<Rightarrow> Some (Halted b)
         | Some (Returns sb1) \<Rightarrow> sensors_loop L (i + 1) data ((fst sb)[i := fst sb1], snd sb1))
      else Some (Returns sb))"
  by pat_completeness auto

termination sensors_loop
  by (relation "measure (\<lambda>(L, i, data, sb). NUM_SENSORS - i)") simp_all

declare sensors_loop.simps [simp del]

definition loop_mul ::
  "('s, 'f) lib \<Rightarrow> 'f bme68xData list \<Rightarrow> 's list \<times> io \<Rightarrow> ('s list \<times> io) outcome option" where
  \<comment> \<open>multi-sensor sketch; \<open>data\<close> is the uninitialised local array\<close>
  "loop_mul L data sb = sensors_loop L 0 data (fst sb, delay MEAS_DUR (snd sb))"

section \<open>Start-up of the single-sensor sketch\<close>

definition wait_console :: "io \<Rightarrow> io option" where
  \<comment> \<open>\<open>while (!Serial) delay(10);\<close>\<close>
  "wait_console b = (case host_opens b of None \<Rightarrow> None | Some k \<Rightarrow> Some ((delay 10 ^^ k) b))"

definition sketch_setup :: "('s, 'f) lib \<Rightarrow> 's \<times> io \<Rightarrow> ('s \<times> io) outcome option" where
  "sketch_setup L sb =
     (case wait_console (snd sb) of
        None \<Rightarrow> None
      | Some b0 \<Rightarrow>
         (let s1 = bme_begin L PIN_CS (fst sb) in
          and_then (checkSensorStatus L s1 b0) (\<lambda>b1.
            let s2 = setTPH L s1 in
            and_then (checkSensorStatus L s2 b1) (\<lambda>b2.
              let sharedHeatrDur = (ucast ((of_nat MEAS_DUR :: u32) - getMeasDur L (PARALLEL_MODE L) s2 div 1000) :: u16)
              in case recv_profile b2 of
                   None \<Rightarrow> None
                 | Some (profileLen, p, b3) \<Rightarrow>
                    (let s3 = setHeaterProf L (tempProf p) (mulProf p) sharedHeatrDur 10 s2
                     in and_then (checkSensorStatus L s3 b3) (\<lambda>b5.
                          let s4 = setOpMode L (PARALLEL_MODE L) s3 in
                          and_then (checkSensorStatus L s4 b5) (\<lambda>b6. Some (Returns (s4, b6)))))))))"

section \<open>A bench driver for running the sketches on concrete inputs\<close>

record bench_sensor =
  bench_status :: int
  bench_uid :: u32
  bench_queue :: "nat bme68xData list"

definition bench_lib :: "(bench_sensor, nat) lib" where
  "bench_lib =
     \<lparr>GASM_VALID_MSK = 0x20, HEAT_STAB_MSK = 0x10, NEW_DATA_MSK = 0x80, PARALLEL_MODE = 2,
      bme_begin = (\<lambda>pin s. s),
      setTPH = (\<lambda>s. s),
      getMeasDur = (\<lambda>m s. 0),
      setHeaterProf = (\<lambda>t m d n s. s),
      setOpMode = (\<lambda>m s. s),
      fetchData = (\<lambda>s. (of_nat (length (bench_queue s)), s)),
      getData = (\<lambda>d s. case bench_queue s of
                          [] \<Rightarrow> ((0, d), s)
                        | x # xs \<Rightarrow> ((of_nat (length xs), x), s\<lparr>bench_queue := xs\<rparr>)),
      getUniqueId = (\<lambda>s. (bench_uid s, s)),
      checkStatus = bench_status,
      statusString = (\<lambda>s. ''status''),
      String_float = dec\<rparr>"

definition bench_io :: "(string \<times> bool) list \<Rightarrow> io" where
  "bench_io r = \<lparr>tx = [], rx = r, avail = False, host_opens = Some 0, clock = 0,
                 led_output = False, led = False\<rparr>"

text \<open>
  A second bench driver whose sensor object is the list of heater profiles it was
  given: \<open>setHeaterProf\<close> appends its four arguments, every other call leaves the
  object alone and the status is always OK.
\<close>

definition probe_lib ::
  "((u16 option list \<times> u16 option list \<times> u16 \<times> u8) list, nat) lib" where
  "probe_lib =
     \<lparr>GASM_VALID_MSK = 0x20, HEAT_STAB_MSK = 0x10, NEW_DATA_MSK = 0x80, PARALLEL_MODE = 2,
      bme_begin = (\<lambda>pin s. s),
      setTPH = (\<lambda>s. s),
      getMeasDur = (\<lambda>m s. 0),
      setHeaterProf = (\<lambda>t m d n s. s @ [(t, m, d, n)]),
      setOpMode = (\<lambda>m s. s),
      fetchData = (\<lambda>s. (0, s)),
      getData = (\<lambda>d s. ((0, d), s)),
      getUniqueId = (\<lambda>s. (0, s)),
      checkStatus = (\<lambda>s. 0),
      statusString = (\<lambda>s. ''status''),
      String_float = dec\<rparr>"

section \<open>Properties of the configuration handshake\<close>

lemma index_from_absent: "c \<notin> set s \<Longrightarrow> index_from k c s = - 1"
  by (induction s arbitrary: k) auto

lemma set_trim: "set (trim s) \<subseteq> set s"
proof -
  have "set (dropWhile isspace (rev (dropWhile isspace s))) \<subseteq> set (rev (dropWhile isspace s))"
    by (rule subsetI, erule set_dropWhileD)
  also have "\<dots> \<subseteq> set s"
    using set_dropWhileD[of _ isspace s] by auto
  finally show ?thesis by (simp add: trim_def)
qed

lemma comma_of_absent: "CHR '','' \<notin> set raw \<Longrightarrow> comma_of raw = - 1"
  using set_trim[of raw] by (auto simp: comma_of_def indexOf_def intro: index_from_absent)

lemma parse_line_no_comma: "CHR '','' \<notin> set raw \<Longrightarrow> parse_line i raw pb = pb"
  by (simp add: parse_line_def comma_of_absent)

lemma parse_line_valid:
  assumes "0 < comma_of raw"
  shows "parse_line i raw (p, b) =
     (p\<lparr>tempProf := (tempProf p)[nat i := Some (word_of_int (parsed_temp raw))],
        mulProf := (mulProf p)[nat i := Some (word_of_int (parsed_mult raw))]\<rparr>,
      Serial_println
        (String_int (parsed_temp raw mod 2 ^ 16) @ '','' @ String_int (parsed_mult raw mod 2 ^ 16)
           @ '','' @ String_int i) b)"
  using assms by (simp add: parse_line_def Let_def uint_word_of_int)

lemma recv_burst_single:
  "recv_burst i (p, b\<lparr>rx := (raw, False) # rest, avail := True\<rparr>) =
     parse_line i raw (p, b\<lparr>rx := rest, avail := False\<rparr>)"
proof -
  have idle: "\<not> Serial_available (snd (parse_line i raw (p, b\<lparr>rx := rest, avail := False\<rparr>)))"
    by (simp add: Serial_available_def parse_line_def Let_def Serial_println_def)
  have "recv_burst i (p, b\<lparr>rx := (raw, False) # rest, avail := True\<rparr>) =
          recv_burst i (parse_line i raw (p, b\<lparr>rx := rest, avail := False\<rparr>))"
    by (subst recv_burst.simps) (simp add: Serial_available_def readString_def)
  also have "\<dots> = parse_line i raw (p, b\<lparr>rx := rest, avail := False\<rparr>)"
    using idle by (subst recv_burst.simps) simp
  finally show ?thesis .
qed

lemma recv_burst_pending:
  "recv_burst i (p, b\<lparr>rx := (raw, True) # x # rest, avail := True\<rparr>) =
     recv_burst i (parse_line i raw (p, b\<lparr>rx := x # rest, avail := True\<rparr>))"
  by (subst recv_burst.simps) (simp add: Serial_available_def readString_def)

text \<open>
  Claim C5. A received line that holds no comma writes neither profile array (and echoes
  nothing), so the values stored from earlier lines stay as they were.
\<close>

theorem C5_line_without_comma_writes_nothing:
  assumes "CHR '','' \<notin> set raw"
  shows "tempProf (fst (parse_line i raw (p, b))) = tempProf p
       \<and> mulProf (fst (parse_line i raw (p, b))) = mulProf p
       \<and> tx (snd (parse_line i raw (p, b))) = tx b"
  using assms by (simp add: parse_line_no_comma)

theorem C5_witness:
  "CHR '','' \<notin> set ''abc''
   \<and> tempProf (fst (parse_line 1 ''abc'' (\<lparr>tempProf = [Some 320, None], mulProf = [Some 5, None]\<rparr>, bench_io [])))
       = [Some 320, None]
   \<and> mulProf (fst (parse_line 1 ''abc'' (\<lparr>tempProf = [Some 320, None], mulProf = [Some 5, None]\<rparr>, bench_io [])))
       = [Some 5, None]"
  using C5_line_without_comma_writes_nothing
          [of "''abc''" 1 "\<lparr>tempProf = [Some 320, None], mulProf = [Some 5, None]\<rparr>" "bench_io []"]
  by simp

text \<open>
  Claim C6. After the length line \<open>3\<close> and the lines \<open>320,5\<close>, \<open>100,2\<close>, \<open>200,10\<close>, each
  received by its own read, the receiver returns with length 3, temperature profile
  [320, 100, 200] and multiplier profile [5, 2, 10].
\<close>

theorem C6_three_line_profile:
  "map_option (\<lambda>(n, p, b). (n, tempProf p, mulProf p))
     (recv_profile (bench_io [(''3'', False), (''320,5'', False), (''100,2'', False), (''200,10'', False)]))
   = Some (3, [Some 320, Some 100, Some 200], [Some 5, Some 2, Some 10])"
  by code_simp

text \<open>
  Claim C4, as stated, fails: the loop index advances at the end of every iteration,
  also when the only line read in it had no comma. With length 2 and the lines \<open>abc\<close>
  and \<open>320,5\<close>, slot 0 is never written and the valid line lands in slot 1.
\<close>

theorem C4_counterexample:
  "map_option (\<lambda>(n, p, b). (n, tempProf p, mulProf p))
     (recv_profile (bench_io [(''2'', False), (''abc'', False), (''320,5'', False)]))
   = Some (2, [None, Some 320], [None, Some 5])"
  by code_simp

text \<open>
  Claim C4, amended. A line without a comma is skipped without writing any slot. When
  it is the only line read in iteration \<open>i\<close>, the loop goes on at index \<open>i + 1\<close> with both
  arrays unchanged, so slot \<open>i\<close> stays unwritten and the next line is read for index
  \<open>i + 1\<close>. The next line is handled at index \<open>i\<close> only when \<open>Serial.available()\<close> is
  already non-zero as the malformed read returns, that is, inside the same iteration.
\<close>

theorem C4_skipped_line_advances_index:
  assumes "CHR '','' \<notin> set bad" and "i < n"
  shows "config_loop i n (p, b\<lparr>rx := (bad, False) # rest\<rparr>)
           = config_loop (i + 1) n (p, b\<lparr>rx := rest, avail := False\<rparr>)
       \<and> config_loop i n (p, b\<lparr>rx := (bad, True) # (next, False) # rest\<rparr>)
           = config_loop (i + 1) n (parse_line i next (p, b\<lparr>rx := rest, avail := False\<rparr>))"
proof
  show "config_loop i n (p, b\<lparr>rx := (bad, False) # rest\<rparr>)
          = config_loop (i + 1) n (p, b\<lparr>rx := rest, avail := False\<rparr>)"
    using assms
    by (subst config_loop.simps)
       (simp add: wait_available_def recv_burst_single parse_line_no_comma)
next
  have "recv_burst i (p, b\<lparr>rx := (bad, True) # (next, False) # rest, avail := True\<rparr>)
          = recv_burst i (p, b\<lparr>rx := (next, False) # rest, avail := True\<rparr>)"
    using assms by (simp add: recv_burst_pending parse_line_no_comma)
  also have "\<dots> = parse_line i next (p, b\<lparr>rx := rest, avail := False\<rparr>)"
    by (rule recv_burst_single)
  finally show "config_loop i n (p, b\<lparr>rx := (bad, True) # (next, False) # rest\<rparr>)
          = config_loop (i + 1) n (parse_line i next (p, b\<lparr>rx := rest, avail := False\<rparr>))"
    using assms by (subst config_loop.simps) (simp add: wait_available_def)
qed

theorem C4_witness:
  "CHR '','' \<notin> set ''abc'' \<and> (0::int) < 2
   \<and> config_loop 0 2 (\<lparr>tempProf = [None, None], mulProf = [None, None]\<rparr>,
                       (bench_io [])\<lparr>rx := (''abc'', False) # [(''320,5'', False)]\<rparr>)
       = config_loop (0 + 1) 2 (\<lparr>tempProf = [None, None], mulProf = [None, None]\<rparr>,
                       (bench_io [])\<lparr>rx := [(''320,5'', False)], avail := False\<rparr>)"
  using C4_skipped_line_advances_index
          [where bad = "''abc''" and i = 0 and n = 2 and b = "bench_io []"
             and p = "\<lparr>tempProf = [None, None], mulProf = [None, None]\<rparr>"
             and rest = "[(''320,5'', False)]"]
  by simp

text \<open>
  Claim C7, as stated, fails: the echo prints the two array slots, which hold the parsed
  integers cut to 16 bits. The line \<open>70000,5\<close> parses to 70000 and 5 and is echoed at
  index 0 as \<open>4464,5,0\<close>.
\<close>

theorem C7_counterexample:
  "parsed_temp ''70000,5'' = 70000 \<and> parsed_mult ''70000,5'' = 5
   \<and> tx (snd (parse_line 0 ''70000,5'' (\<lparr>tempProf = [None], mulProf = [None]\<rparr>, bench_io [])))
       = ''4464,5,0'' @ [CR, LF]
   \<and> tx (snd (parse_line 0 ''70000,5'' (\<lparr>tempProf = [None], mulProf = [None]\<rparr>, bench_io [])))
       \<noteq> String_int (parsed_temp ''70000,5'') @ '','' @ String_int (parsed_mult ''70000,5'')
            @ '','' @ String_int 0 @ [CR, LF]"
proof -
  have h: "0 < comma_of ''70000,5''" by code_simp
  have e1: "parsed_temp ''70000,5'' = 70000" by code_simp
  have e2: "parsed_mult ''70000,5'' = 5" by code_simp
  have t: "tx (bench_io []) = []" by (simp add: bench_io_def)
  show ?thesis
    unfolding parse_line_valid[OF h] e1 e2
    by (simp add: Serial_println_def t String_int_def dec.simps)
qed

text \<open>
  Claim C7, amended. For every line whose comma is found at a position above 0 and
  that is handled at index \<open>i\<close>, the device echoes exactly the line
  \<open><temp>,<mult>,<i>\<close> built from the two stored 16-bit values (the parsed integers
  modulo 65536) and the index, ended by CR LF. When both parsed integers lie in
  0..65535 these are the parsed integers themselves; the line \<open>320,5\<close> at index 2 is
  echoed as \<open>320,5,2\<close>.
\<close>

theorem C7_echo_of_stored_pair:
  assumes "0 < comma_of raw"
  shows "tx (snd (parse_line i raw (p, b)))
           = tx b @ String_int (parsed_temp raw mod 2 ^ 16) @ '','' @ String_int (parsed_mult raw mod 2 ^ 16)
                  @ '','' @ String_int i @ [CR, LF]
       \<and> (0 \<le> parsed_temp raw \<and> parsed_temp raw < 2 ^ 16 \<and> 0 \<le> parsed_mult raw \<and> parsed_mult raw < 2 ^ 16
            \<longrightarrow> tx (snd (parse_line i raw (p, b)))
                  = tx b @ String_int (parsed_temp raw) @ '','' @ String_int (parsed_mult raw)
                         @ '','' @ String_int i @ [CR, LF])"
  using assms by (simp add: parse_line_valid Serial_println_def)

theorem C7_witness:
  "0 < comma_of ''320,5''
   \<and> 0 \<le> parsed_temp ''320,5'' \<and> parsed_temp ''320,5'' < 2 ^ 16
   \<and> 0 \<le> parsed_mult ''320,5'' \<and> parsed_mult ''320,5'' < 2 ^ 16
   \<and> tx (snd (parse_line 2 ''320,5'' (\<lparr>tempProf = [None, None, None], mulProf = [None, None, None]\<rparr>, bench_io [])))
       = ''320,5,2'' @ [CR, LF]"
proof -
  have h: "0 < comma_of ''320,5''" by code_simp
  have e1: "parsed_temp ''320,5'' = 320" by code_simp
  have e2: "parsed_mult ''320,5'' = 5" by code_simp
  have t: "tx (bench_io []) = []" by (simp add: bench_io_def)
  from C7_echo_of_stored_pair
         [OF h, of 2 "\<lparr>tempProf = [None, None, None], mulProf = [None, None, None]\<rparr>" "bench_io []"]
  show ?thesis
    unfolding e1 e2 t using h by (simp add: String_int_def dec.simps)
qed

text \<open>
  Claim C10. The arrays hold 16-bit unsigned values: for every line whose comma is found
  at a position above 0, handled at an index inside the arrays, the stored temperature
  and multiplier are the parsed integers modulo 65536. A temperature text of 70000 is
  stored as 4464.
\<close>

theorem C10_stored_modulo_65536:
  assumes "0 < comma_of raw"
      and "nat i < length (tempProf p)" and "nat i < length (mulProf p)"
  shows "\<exists>t m. tempProf (fst (parse_line i raw (p, b))) ! nat i = Some t
             \<and> mulProf (fst (parse_line i raw (p, b))) ! nat i = Some m
             \<and> uint t = parsed_temp raw mod 2 ^ 16
             \<and> uint m = parsed_mult raw mod 2 ^ 16"
  using assms by (simp add: parse_line_valid uint_word_of_int)

theorem C10_witness:
  "0 < comma_of ''70000,5''
   \<and> nat 0 < length (tempProf \<lparr>tempProf = [None], mulProf = [None]\<rparr>)
   \<and> nat 0 < length (mulProf \<lparr>tempProf = [None], mulProf = [None]\<rparr>)
   \<and> parsed_temp ''70000,5'' = 70000
   \<and> (\<exists>t m. tempProf (fst (parse_line 0 ''70000,5'' (\<lparr>tempProf = [None], mulProf = [None]\<rparr>, bench_io []))) ! nat 0 = Some t
           \<and> mulProf (fst (parse_line 0 ''70000,5'' (\<lparr>tempProf = [None], mulProf = [None]\<rparr>, bench_io []))) ! nat 0 = Some m
           \<and> uint t = 4464 \<and> uint m = 5)"
proof -
  have h: "0 < comma_of ''70000,5''" by code_simp
  have e1: "parsed_temp ''70000,5'' = 70000" by code_simp
  have e2: "parsed_mult ''70000,5'' = 5" by code_simp
  from C10_stored_modulo_65536[OF h, of 0 "\<lparr>tempProf = [None], mulProf = [None]\<rparr>" "bench_io []"]
  show ?thesis unfolding e1 e2 using h by simp
qed


section \<open>Properties of the health check\<close>

lemma halt_loop_never_returns: "halt_loop b = None"
proof -
  have "halt_loop b = Some y \<Longrightarrow> False" for y
    by (rule halt_loop.raw_induct[where P = "\<lambda>_ _. False"]) auto
  then show ?thesis by (cases "halt_loop b") auto
qed

lemma tx_errLeds: "tx (errLeds b) = tx b"
  by (simp add: errLeds_def delay_def)

lemma tx_errLeds_funpow: "tx ((errLeds ^^ n) b) = tx b"
  by (induction n) (simp_all add: tx_errLeds)

lemma checkSensorStatus_error:
  "checkStatus L s = BME68X_ERROR \<Longrightarrow>
     checkSensorStatus L s b = Halted (Serial_println (''Sensor error:'' @ statusString L s) b)"
  by (simp add: checkSensorStatus_def BME68X_ERROR_def halt_loop_never_returns)

lemma checkSensorStatus_warning:
  "checkStatus L s = BME68X_WARNING \<Longrightarrow>
     checkSensorStatus L s b = Returns (Serial_println (''Sensor Warning:'' @ statusString L s) b)"
  by (simp add: checkSensorStatus_def BME68X_ERROR_def BME68X_WARNING_def)

lemma checkSensorStatus_ok:
  "checkStatus L s = BME68X_OK \<Longrightarrow> checkSensorStatus L s b = Returns b"
  by (simp add: checkSensorStatus_def BME68X_OK_def)

text \<open>
  Claim C2. When the health check sees the Error status it prints one message and
  enters the blink loop: the loop never returns from any state, and no number of its
  rounds changes the bytes written to the serial port, so no data line follows. On
  Warning the check prints one message and returns; on OK it returns with the board
  untouched.
\<close>

theorem C2_health_check_outcomes:
  "(checkStatus L s = BME68X_ERROR \<longrightarrow>
      checkSensorStatus L s b = Halted (Serial_println (''Sensor error:'' @ statusString L s) b))
   \<and> halt_loop b = None
   \<and> (\<forall>n. tx ((errLeds ^^ n) b) = tx b)
   \<and> (checkStatus L s = BME68X_WARNING \<longrightarrow>
      checkSensorStatus L s b = Returns (Serial_println (''Sensor Warning:'' @ statusString L s) b))
   \<and> (checkStatus L s = BME68X_OK \<longrightarrow> checkSensorStatus L s b = Returns b)"
  by (simp add: checkSensorStatus_error checkSensorStatus_warning checkSensorStatus_ok
        halt_loop_never_returns tx_errLeds_funpow)

theorem C2_witness:
  "checkStatus bench_lib \<lparr>bench_status = - 1, bench_uid = 7, bench_queue = []\<rparr> = BME68X_ERROR
   \<and> checkSensorStatus bench_lib \<lparr>bench_status = - 1, bench_uid = 7, bench_queue = []\<rparr> (bench_io [])
       = Halted ((bench_io [])\<lparr>tx := ''Sensor error:status'' @ [CR, LF]\<rparr>)
   \<and> checkStatus bench_lib \<lparr>bench_status = 1, bench_uid = 7, bench_queue = []\<rparr> = BME68X_WARNING
   \<and> checkSensorStatus bench_lib \<lparr>bench_status = 1, bench_uid = 7, bench_queue = []\<rparr> (bench_io [])
       = Returns ((bench_io [])\<lparr>tx := ''Sensor Warning:status'' @ [CR, LF]\<rparr>)
   \<and> checkStatus bench_lib \<lparr>bench_status = 0, bench_uid = 7, bench_queue = []\<rparr> = BME68X_OK
   \<and> checkSensorStatus bench_lib \<lparr>bench_status = 0, bench_uid = 7, bench_queue = []\<rparr> (bench_io [])
       = Returns (bench_io [])"
  using C2_health_check_outcomes
          [of bench_lib "\<lparr>bench_status = - 1, bench_uid = 7, bench_queue = []\<rparr>" "bench_io []"]
        C2_health_check_outcomes
          [of bench_lib "\<lparr>bench_status = 1, bench_uid = 7, bench_queue = []\<rparr>" "bench_io []"]
        C2_health_check_outcomes
          [of bench_lib "\<lparr>bench_status = 0, bench_uid = 7, bench_queue = []\<rparr>" "bench_io []"]
  by (simp add: bench_lib_def bench_io_def BME68X_ERROR_def BME68X_WARNING_def BME68X_OK_def
        Serial_println_def)


section \<open>Properties of the polling loop\<close>

lemma digit_nth: "k < 10 \<Longrightarrow> ''0123456789'' ! k \<in> set ''0123456789''"
  by (rule nth_mem) simp

lemma set_dec: "set (dec n) \<subseteq> set ''0123456789''"
proof (induction n rule: dec.induct)
  case (1 n)
  show ?case
  proof (cases "n < 10")
    case True
    with digit_nth[of n] show ?thesis by (subst dec.simps) simp
  next
    case False
    have "n mod 10 < 10" by simp
    with False 1 digit_nth[of "n mod 10"] show ?thesis by (subst dec.simps) simp
  qed
qed

lemma set_String_int: "set (String_int k) \<subseteq> insert CHR ''-'' (set ''0123456789'')"
proof (cases "k < 0")
  case True
  then have "set (String_int k) = insert CHR ''-'' (set (dec (nat (- k))))"
    by (simp add: String_int_def)
  also have "\<dots> \<subseteq> insert CHR ''-'' (set ''0123456789'')"
    by (rule insert_mono) (rule set_dec)
  finally show ?thesis .
next
  case False
  then have "set (String_int k) = set (dec (nat k))"
    by (simp add: String_int_def)
  also have "\<dots> \<subseteq> set ''0123456789''"
    by (rule set_dec)
  also have "\<dots> \<subseteq> insert CHR ''-'' (set ''0123456789'')"
    by (rule subset_insertI)
  finally show ?thesis .
qed

lemma dec_plain: "CHR '','' \<notin> set (dec n)" "LF \<notin> set (dec n)"
  using set_dec[of n] by (auto simp: LF_def)

lemma String_int_plain: "CHR '','' \<notin> set (String_int k)" "LF \<notin> set (String_int k)"
  using set_String_int[of k] by (auto simp: LF_def)

lemma tx_print_fields:
  "tx (snd (print_fields L i d (s, b))) =
     tx b @ String_int (int i) @ '', ''
          @ dec (unat (fst (getUniqueId L s))) @ '', ''
          @ dec (unat (millis b)) @ '', ''
          @ String_float L (temperature d) @ '', ''
          @ String_float L (pressure d) @ '', ''
          @ String_float L (humidity d) @ '', ''
          @ String_float L (gas_resistance d) @ '', ''
          @ String_int (checkStatus L (snd (getUniqueId L s))) @ '', ''
          @ dec (unat (gas_index d)) @ [CR, LF]"
  by (simp add: print_fields_def Let_def Serial_print_def Serial_println_def millis_def)

lemma or_absorbed:
  fixes m x :: "'a::len word"
  assumes "m OR x = m"
  shows "x AND NOT m = 0"
proof -
  have "x AND NOT m = x AND NOT (m OR x)"
    using assms by simp
  also have "\<dots> = 0"
    by (rule bit_eqI) (auto simp: bit_simps)
  finally show ?thesis .
qed

lemma print_if_new_one_line:
  assumes "\<forall>x. LF \<notin> set (String_float L x)"
      and "status d = (GASM_VALID_MSK L OR HEAT_STAB_MSK L OR NEW_DATA_MSK L)"
  shows "\<exists>line. tx (snd (print_if_new L i d (s, b))) = tx b @ line @ [CR, LF] \<and> LF \<notin> set line"
proof -
  from assms(2) have eq: "print_if_new L i d (s, b) = print_fields L i d (s, b)"
    by (simp add: print_if_new_def NEW_GAS_MEAS_def)
  let ?line = "String_int (int i) @ '', ''
          @ dec (unat (fst (getUniqueId L s))) @ '', ''
          @ dec (unat (millis b)) @ '', ''
          @ String_float L (temperature d) @ '', ''
          @ String_float L (pressure d) @ '', ''
          @ String_float L (humidity d) @ '', ''
          @ String_float L (gas_resistance d) @ '', ''
          @ String_int (checkStatus L (snd (getUniqueId L s))) @ '', ''
          @ dec (unat (gas_index d))"
  have sep: "LF \<notin> set '', ''"
    by (simp add: LF_def)
  have "tx (snd (print_if_new L i d (s, b))) = tx b @ ?line @ [CR, LF]"
    by (simp only: eq tx_print_fields append_assoc)
  moreover have "LF \<notin> set ?line"
    using assms(1) sep dec_plain(2) String_int_plain(2) by (simp only: set_append Un_iff) blast
  ultimately show ?thesis
    by blast
qed

lemma print_if_new_other:
  "status d \<noteq> (GASM_VALID_MSK L OR HEAT_STAB_MSK L OR NEW_DATA_MSK L) \<Longrightarrow> print_if_new L i d sb = sb"
  by (simp add: print_if_new_def NEW_GAS_MEAS_def)

lemma extra_bit_differs:
  fixes m x :: "'a::len word"
  shows "x AND NOT m \<noteq> 0 \<Longrightarrow> m OR x \<noteq> m"
  using or_absorbed[of m x] by auto

lemma pull_loop_round:
  "pull_loop L i data (s, b) =
     (case checkSensorStatus L
             (fst (print_if_new L i (snd (fst (getData L data s))) (snd (getData L data s), b)))
             (snd (print_if_new L i (snd (fst (getData L data s))) (snd (getData L data s), b))) of
        Halted h \<Rightarrow> Some (Halted h)
      | Returns b3 \<Rightarrow>
          if fst (fst (getData L data s)) \<noteq> 0
          then pull_loop L i (snd (fst (getData L data s)))
                 (fst (print_if_new L i (snd (fst (getData L data s))) (snd (getData L data s), b)), b3)
          else Some (Returns
                 (fst (print_if_new L i (snd (fst (getData L data s))) (snd (getData L data s), b)), b3)))"
  by (subst pull_loop.simps) (simp add: Let_def)

text \<open>
  Claim C1. Every round of the polling loop pulls one record and, before the health
  check, appends to the serial output exactly one line when the record's status equals
  the OR of the three masks, and nothing for any other status; a status that has one
  more bit set beside these three appends nothing. The loop then runs the health check
  on that board and goes on to the next round while records are left, or returns. A
  cycle whose fetch reports no data pulls no record and prints nothing. One line means
  one CR LF, at the end; the rendering of a floating-point field is taken not to hold
  a line feed.
\<close>

theorem C1_one_line_per_pulled_record:
  assumes "\<forall>x. LF \<notin> set (String_float L x)"
  shows "let d = snd (fst (getData L data s));
             nFieldsLeft = fst (fst (getData L data s));
             sb1 = print_if_new L i d (snd (getData L data s), b);
             M = (GASM_VALID_MSK L OR HEAT_STAB_MSK L OR NEW_DATA_MSK L)
         in (status d = M \<longrightarrow> (\<exists>line. tx (snd sb1) = tx b @ line @ [CR, LF] \<and> LF \<notin> set line))
          \<and> (status d \<noteq> M \<longrightarrow> sb1 = (snd (getData L data s), b))
          \<and> (extra AND NOT M \<noteq> 0 \<and> status d = M OR extra \<longrightarrow> sb1 = (snd (getData L data s), b))
          \<and> pull_loop L i data (s, b) =
               (case checkSensorStatus L (fst sb1) (snd sb1) of
                  Halted h \<Rightarrow> Some (Halted h)
                | Returns b3 \<Rightarrow>
                    if nFieldsLeft \<noteq> 0 then pull_loop L i d (fst sb1, b3)
                    else Some (Returns (fst sb1, b3)))
          \<and> (checkStatus L (fst sb1) = BME68X_OK \<and> nFieldsLeft \<noteq> 0 \<longrightarrow>
                pull_loop L i data (s, b) = pull_loop L i d sb1)
          \<and> (checkStatus L (fst sb1) = BME68X_OK \<and> nFieldsLeft = 0 \<longrightarrow>
                pull_loop L i data (s, b) = Some (Returns sb1))
          \<and> (fst (fetchData L s0) \<noteq> 0 \<longrightarrow>
                loop L data (s0, b0) = pull_loop L 0 data (snd (fetchData L s0), delay MEAS_DUR b0)
                \<and> poll_sensor L i data (s0, b0) = pull_loop L i data (snd (fetchData L s0), b0))
          \<and> (fst (fetchData L s0) = 0 \<longrightarrow>
                loop L data (s0, b0) = Some (Returns (snd (fetchData L s0), delay MEAS_DUR b0))
                \<and> poll_sensor L i data (s0, b0) = Some (Returns (snd (fetchData L s0), b0)))"
proof -
  let ?d = "snd (fst (getData L data s))"
  let ?s1 = "snd (getData L data s)"
  let ?sb1 = "print_if_new L i ?d (?s1, b)"
  let ?M = "GASM_VALID_MSK L OR HEAT_STAB_MSK L OR NEW_DATA_MSK L"
  have one: "status ?d = ?M \<longrightarrow> (\<exists>line. tx (snd ?sb1) = tx b @ line @ [CR, LF] \<and> LF \<notin> set line)"
    using print_if_new_one_line[OF assms] by blast
  have none: "status ?d \<noteq> ?M \<longrightarrow> ?sb1 = (?s1, b)"
    by (simp add: print_if_new_other)
  have more: "extra AND NOT ?M \<noteq> 0 \<and> status ?d = ?M OR extra \<longrightarrow> ?sb1 = (?s1, b)"
    using extra_bit_differs[of extra ?M] by (auto simp: print_if_new_other)
  have go_on: "checkStatus L (fst ?sb1) = BME68X_OK \<and> fst (fst (getData L data s)) \<noteq> 0 \<longrightarrow>
                 pull_loop L i data (s, b) = pull_loop L i ?d ?sb1"
    by (subst pull_loop_round) (simp add: checkSensorStatus_ok)
  have stop: "checkStatus L (fst ?sb1) = BME68X_OK \<and> fst (fst (getData L data s)) = 0 \<longrightarrow>
                pull_loop L i data (s, b) = Some (Returns ?sb1)"
    by (subst pull_loop_round) (simp add: checkSensorStatus_ok)
  have busy: "fst (fetchData L s0) \<noteq> 0 \<longrightarrow>
                loop L data (s0, b0) = pull_loop L 0 data (snd (fetchData L s0), delay MEAS_DUR b0)
                \<and> poll_sensor L i data (s0, b0) = pull_loop L i data (snd (fetchData L s0), b0)"
    by (simp add: loop_def poll_sensor_def)
  have idle: "fst (fetchData L s0) = 0 \<longrightarrow>
                loop L data (s0, b0) = Some (Returns (snd (fetchData L s0), delay MEAS_DUR b0))
                \<and> poll_sensor L i data (s0, b0) = Some (Returns (snd (fetchData L s0), b0))"
    by (simp add: loop_def poll_sensor_def)
  show ?thesis
    unfolding Let_def
    using one none more pull_loop_round[of L i data s b] go_on stop busy idle
    by (intro conjI) blast+
qed

lemma bench_float_plain: "\<forall>x. LF \<notin> set (String_float bench_lib x)"
  by (simp add: bench_lib_def dec_plain)

lemma bench_cycle_two_records:
  "pull_loop bench_lib 0 d0
     (\<lparr>bench_status = 0, bench_uid = 7, bench_queue =
         [\<lparr>status = 0xB0, gas_index = 3, temperature = 25, pressure = 1000, humidity = 40,
           gas_resistance = 5000\<rparr>,
          \<lparr>status = 0xB1, gas_index = 4, temperature = 26, pressure = 1001, humidity = 41,
           gas_resistance = 5001\<rparr>]\<rparr>, delay MEAS_DUR (bench_io []))
   = Some (Returns (\<lparr>bench_status = 0, bench_uid = 7, bench_queue = []\<rparr>,
        (bench_io [])\<lparr>tx := ''0, 7, 140, 25, 1000, 40, 5000, 0, 3'' @ [CR, LF], clock := 140\<rparr>))"
proof -
  have n: "dec 7 = ''7''" "dec 140 = ''140''" "dec 25 = ''25''" "dec 1000 = ''1000''" "dec 40 = ''40''"
          "dec 5000 = ''5000''" "dec 3 = ''3''" "String_int 0 = ''0''"
    by (simp_all add: String_int_def dec.simps)
  show ?thesis
    apply (subst pull_loop.simps)
    apply (simp add: bench_lib_def bench_io_def delay_def MEAS_DUR_def print_if_new_def
          NEW_GAS_MEAS_def print_fields_def Let_def Serial_print_def Serial_println_def millis_def
          checkSensorStatus_def n)
    apply (subst pull_loop.simps)
    apply (simp add: bench_lib_def print_if_new_def NEW_GAS_MEAS_def Let_def checkSensorStatus_def)
    done
qed

theorem C1_witness:
  "(\<forall>x. LF \<notin> set (String_float bench_lib x))
   \<and> fst (fetchData bench_lib
        \<lparr>bench_status = 0, bench_uid = 7, bench_queue =
           [\<lparr>status = 0xB0, gas_index = 3, temperature = 25, pressure = 1000, humidity = 40,
             gas_resistance = 5000\<rparr>,
            \<lparr>status = 0xB1, gas_index = 4, temperature = 26, pressure = 1001, humidity = 41,
             gas_resistance = 5001\<rparr>]\<rparr>) \<noteq> 0
   \<and> loop bench_lib
        \<lparr>status = 0, gas_index = 0, temperature = 0, pressure = 0, humidity = 0, gas_resistance = 0\<rparr>
        (\<lparr>bench_status = 0, bench_uid = 7, bench_queue =
           [\<lparr>status = 0xB0, gas_index = 3, temperature = 25, pressure = 1000, humidity = 40,
             gas_resistance = 5000\<rparr>,
            \<lparr>status = 0xB1, gas_index = 4, temperature = 26, pressure = 1001, humidity = 41,
             gas_resistance = 5001\<rparr>]\<rparr>, bench_io [])
       = Some (Returns (\<lparr>bench_status = 0, bench_uid = 7, bench_queue = []\<rparr>,
            (bench_io [])\<lparr>tx := ''0, 7, 140, 25, 1000, 40, 5000, 0, 3'' @ [CR, LF], clock := 140\<rparr>))"
proof -
  let ?z = "\<lparr>status = 0, gas_index = 0, temperature = 0, pressure = 0, humidity = 0,
              gas_resistance = (0 :: nat)\<rparr>"
  let ?s = "\<lparr>bench_status = 0, bench_uid = 7, bench_queue =
           [\<lparr>status = 0xB0, gas_index = 3, temperature = 25, pressure = 1000, humidity = 40,
             gas_resistance = (5000 :: nat)\<rparr>,
            \<lparr>status = 0xB1, gas_index = 4, temperature = 26, pressure = 1001, humidity = 41,
             gas_resistance = 5001\<rparr>]\<rparr>"
  have fetch: "fetchData bench_lib ?s = (2, ?s)"
    by (simp add: bench_lib_def)
  from C1_one_line_per_pulled_record
         [OF bench_float_plain, where ?s0.0 = ?s and ?b0.0 = "bench_io []" and data = ?z,
          unfolded Let_def, THEN conjunct2, THEN conjunct2, THEN conjunct2, THEN conjunct2,
          THEN conjunct2, THEN conjunct2, THEN conjunct1]
  have "loop bench_lib ?z (?s, bench_io [])
          = pull_loop bench_lib 0 ?z (snd (fetchData bench_lib ?s), delay MEAS_DUR (bench_io []))"
    by (simp add: fetch)
  then show ?thesis
    using bench_float_plain by (simp add: fetch bench_cycle_two_records)
qed


text \<open>
  Claim C9. An emitted data line is the text of nine fields in this order: sensor
  index, unique identifier, milliseconds since boot, temperature, pressure, humidity,
  gas resistance, status code, gas index. A comma and a blank follow each of the first
  eight and CR LF ends the line, so the line holds exactly eight commas when the
  rendering of a floating-point field holds none. The single-sensor sketch passes the
  index 0, printed as \<open>0\<close>.
\<close>

theorem C9_nine_fields_in_order:
  "tx (snd (print_fields L i d (s, b))) =
     tx b @ String_int (int i) @ '', ''
          @ dec (unat (fst (getUniqueId L s))) @ '', ''
          @ dec (unat (millis b)) @ '', ''
          @ String_float L (temperature d) @ '', ''
          @ String_float L (pressure d) @ '', ''
          @ String_float L (humidity d) @ '', ''
          @ String_float L (gas_resistance d) @ '', ''
          @ String_int (checkStatus L (snd (getUniqueId L s))) @ '', ''
          @ dec (unat (gas_index d)) @ [CR, LF]
   \<and> ((\<forall>x. CHR '','' \<notin> set (String_float L x)) \<longrightarrow>
        count_list (drop (length (tx b)) (tx (snd (print_fields L i d (s, b))))) CHR '','' = 8)
   \<and> loop L d (s, b) = poll_sensor L 0 d (s, delay MEAS_DUR b)
   \<and> String_int (int 0) = ''0''"
proof (intro conjI impI)
  show "tx (snd (print_fields L i d (s, b))) =
     tx b @ String_int (int i) @ '', ''
          @ dec (unat (fst (getUniqueId L s))) @ '', ''
          @ dec (unat (millis b)) @ '', ''
          @ String_float L (temperature d) @ '', ''
          @ String_float L (pressure d) @ '', ''
          @ String_float L (humidity d) @ '', ''
          @ String_float L (gas_resistance d) @ '', ''
          @ String_int (checkStatus L (snd (getUniqueId L s))) @ '', ''
          @ dec (unat (gas_index d)) @ [CR, LF]"
    by (rule tx_print_fields)
next
  assume plain: "\<forall>x. CHR '','' \<notin> set (String_float L x)"
  have f: "count_list (String_float L x) CHR '','' = 0" for x
    using plain by simp
  show "count_list (drop (length (tx b)) (tx (snd (print_fields L i d (s, b))))) CHR '','' = 8"
    unfolding tx_print_fields
    by (simp add: f CR_def LF_def dec_plain(1) String_int_plain(1))
next
  show "loop L d (s, b) = poll_sensor L 0 d (s, delay MEAS_DUR b)"
    by (simp add: loop_def)
next
  show "String_int (int 0) = ''0''"
    by (simp add: String_int_def dec.simps)
qed

theorem C9_witness:
  "(\<forall>x. CHR '','' \<notin> set (String_float bench_lib x))
   \<and> tx (snd (print_fields bench_lib 1
               \<lparr>status = 0xB0, gas_index = 3, temperature = 25, pressure = 1000, humidity = 40,
                  gas_resistance = 5000\<rparr>
               (\<lparr>bench_status = 0, bench_uid = 7, bench_queue = []\<rparr>, bench_io [])))
       = ''1, 7, 0, 25, 1000, 40, 5000, 0, 3'' @ [CR, LF]
   \<and> count_list (drop (length (tx (bench_io [])))
         (tx (snd (print_fields bench_lib 1
               \<lparr>status = 0xB0, gas_index = 3, temperature = 25, pressure = 1000, humidity = 40,
                  gas_resistance = 5000\<rparr>
               (\<lparr>bench_status = 0, bench_uid = 7, bench_queue = []\<rparr>, bench_io []))))) CHR '','' = 8"
proof -
  have plain: "\<forall>x. CHR '','' \<notin> set (String_float bench_lib x)"
    by (simp add: bench_lib_def dec_plain)
  have t: "tx (bench_io []) = []" "millis (bench_io []) = 0"
    by (simp_all add: bench_io_def millis_def)
  have l: "getUniqueId bench_lib \<lparr>bench_status = 0, bench_uid = 7, bench_queue = []\<rparr>
             = (7, \<lparr>bench_status = 0, bench_uid = 7, bench_queue = []\<rparr>)"
          "checkStatus bench_lib \<lparr>bench_status = 0, bench_uid = 7, bench_queue = []\<rparr> = 0"
          "String_float bench_lib = dec"
    by (simp_all add: bench_lib_def)
  have n: "dec 7 = ''7''" "dec 0 = ''0''" "dec 25 = ''25''" "dec 1000 = ''1000''" "dec 40 = ''40''"
          "dec 5000 = ''5000''" "dec 3 = ''3''" "String_int 1 = ''1''" "String_int 0 = ''0''"
    by (simp_all add: String_int_def dec.simps)
  from C9_nine_fields_in_order
         [of bench_lib 1 "\<lparr>status = 0xB0, gas_index = 3, temperature = 25, pressure = 1000,
                           humidity = 40, gas_resistance = 5000\<rparr>"
             "\<lparr>bench_status = 0, bench_uid = 7, bench_queue = []\<rparr>" "bench_io []"]
  show ?thesis
    using plain by (simp add: t l n CR_def LF_def)
qed


section \<open>Properties of the multi-sensor cycle\<close>

lemma poll_sensor_idle:
  "fst (fetchData L s) = 0 \<Longrightarrow> poll_sensor L i d (s, b) = Some (Returns (snd (fetchData L s), b))"
  by (simp add: poll_sensor_def)

lemma sensors_loop_end: "sensors_loop L (Suc (Suc 0)) data sb = Some (Returns sb)"
  by (subst sensors_loop.simps) (simp add: NUM_SENSORS_def)

lemma sensors_loop_last:
  "sensors_loop L (Suc 0) data ([s0, s1], b) =
     (case poll_sensor L 1 (data ! 1) (s1, b) of
        None \<Rightarrow> None
      | Some (Halted h) \<Rightarrow> Some (Halted h)
      | Some (Returns sb1) \<Rightarrow> Some (Returns ([s0, fst sb1], snd sb1)))"
  by (subst sensors_loop.simps)
     (simp add: NUM_SENSORS_def sensors_loop_end split: option.splits outcome.splits)

lemma sensors_loop_first:
  "sensors_loop L 0 data ([s0, s1], b) =
     (case poll_sensor L 0 (data ! 0) (s0, b) of
        None \<Rightarrow> None
      | Some (Halted h) \<Rightarrow> Some (Halted h)
      | Some (Returns sb0) \<Rightarrow> sensors_loop L (Suc 0) data ([fst sb0, s1], snd sb0))"
  by (subst sensors_loop.simps)
     (simp add: NUM_SENSORS_def split: option.splits outcome.splits)

text \<open>
  Claim C8. In a cycle of the two-sensor sketch, when the fetch of sensor 0 reports no
  new data, the cycle does to the serial output exactly what the fetch-and-emit step of
  sensor 1 does on its own; and when the fetch of sensor 1 reports no new data, the cycle
  does exactly what the step of sensor 0 does. The step of a sensor reads that sensor's
  object and the board only.
\<close>

theorem C8_idle_sensor_does_not_suppress_the_other:
  "(fst (fetchData L s0) = 0 \<longrightarrow>
      loop_mul L data ([s0, s1], b) =
        (case poll_sensor L 1 (data ! 1) (s1, delay MEAS_DUR b) of
           None \<Rightarrow> None
         | Some (Halted h) \<Rightarrow> Some (Halted h)
         | Some (Returns sb1) \<Rightarrow> Some (Returns ([snd (fetchData L s0), fst sb1], snd sb1))))
   \<and> (fst (fetchData L s1) = 0 \<longrightarrow>
      loop_mul L data ([s0, s1], b) =
        (case poll_sensor L 0 (data ! 0) (s0, delay MEAS_DUR b) of
           None \<Rightarrow> None
         | Some (Halted h) \<Rightarrow> Some (Halted h)
         | Some (Returns sb0) \<Rightarrow> Some (Returns ([fst sb0, snd (fetchData L s1)], snd sb0))))"
proof (intro conjI impI)
  assume "fst (fetchData L s0) = 0"
  then show "loop_mul L data ([s0, s1], b) =
        (case poll_sensor L 1 (data ! 1) (s1, delay MEAS_DUR b) of
           None \<Rightarrow> None
         | Some (Halted h) \<Rightarrow> Some (Halted h)
         | Some (Returns sb1) \<Rightarrow> Some (Returns ([snd (fetchData L s0), fst sb1], snd sb1)))"
    by (simp add: loop_mul_def sensors_loop_first poll_sensor_idle sensors_loop_last)
next
  assume idle: "fst (fetchData L s1) = 0"
  show "loop_mul L data ([s0, s1], b) =
        (case poll_sensor L 0 (data ! 0) (s0, delay MEAS_DUR b) of
           None \<Rightarrow> None
         | Some (Halted h) \<Rightarrow> Some (Halted h)
         | Some (Returns sb0) \<Rightarrow> Some (Returns ([fst sb0, snd (fetchData L s1)], snd sb0)))"
    by (simp add: loop_mul_def sensors_loop_first sensors_loop_last poll_sensor_idle[OF idle]
          split: option.splits outcome.splits)
qed

lemma bench_poll_one_record:
  "poll_sensor bench_lib 1 d0
     (\<lparr>bench_status = 0, bench_uid = 7, bench_queue =
         [\<lparr>status = 0xB0, gas_index = 3, temperature = 25, pressure = 1000, humidity = 40,
           gas_resistance = 5000\<rparr>]\<rparr>, delay MEAS_DUR (bench_io []))
   = Some (Returns (\<lparr>bench_status = 0, bench_uid = 7, bench_queue = []\<rparr>,
        (bench_io [])\<lparr>tx := ''1, 7, 140, 25, 1000, 40, 5000, 0, 3'' @ [CR, LF], clock := 140\<rparr>))"
proof -
  have n: "dec 7 = ''7''" "dec 140 = ''140''" "dec 25 = ''25''" "dec 1000 = ''1000''" "dec 40 = ''40''"
          "dec 5000 = ''5000''" "dec 3 = ''3''" "String_int 1 = ''1''" "String_int 0 = ''0''"
    by (simp_all add: String_int_def dec.simps)
  show ?thesis
    unfolding poll_sensor_def
    by (subst pull_loop.simps)
       (simp add: bench_lib_def bench_io_def delay_def MEAS_DUR_def print_if_new_def
          NEW_GAS_MEAS_def print_fields_def Let_def Serial_print_def Serial_println_def millis_def
          checkSensorStatus_def n)
qed

theorem C8_witness:
  "fst (fetchData bench_lib \<lparr>bench_status = 0, bench_uid = 9, bench_queue = []\<rparr>) = 0
   \<and> loop_mul bench_lib
        [\<lparr>status = 0, gas_index = 0, temperature = 0, pressure = 0, humidity = 0, gas_resistance = 0\<rparr>,
         \<lparr>status = 0, gas_index = 0, temperature = 0, pressure = 0, humidity = 0, gas_resistance = 0\<rparr>]
        ([\<lparr>bench_status = 0, bench_uid = 9, bench_queue = []\<rparr>,
          \<lparr>bench_status = 0, bench_uid = 7, bench_queue =
             [\<lparr>status = 0xB0, gas_index = 3, temperature = 25, pressure = 1000, humidity = 40,
               gas_resistance = 5000\<rparr>]\<rparr>], bench_io [])
       = Some (Returns ([\<lparr>bench_status = 0, bench_uid = 9, bench_queue = []\<rparr>,
                         \<lparr>bench_status = 0, bench_uid = 7, bench_queue = []\<rparr>],
            (bench_io [])\<lparr>tx := ''1, 7, 140, 25, 1000, 40, 5000, 0, 3'' @ [CR, LF], clock := 140\<rparr>))"
proof -
  have idle: "fetchData bench_lib \<lparr>bench_status = 0, bench_uid = 9, bench_queue = []\<rparr>
                = (0, \<lparr>bench_status = 0, bench_uid = 9, bench_queue = []\<rparr>)"
    by (simp add: bench_lib_def)
  from C8_idle_sensor_does_not_suppress_the_other
         [of bench_lib "\<lparr>bench_status = 0, bench_uid = 9, bench_queue = []\<rparr>"
             "[\<lparr>status = 0, gas_index = 0, temperature = 0, pressure = 0, humidity = 0, gas_resistance = 0\<rparr>,
               \<lparr>status = 0, gas_index = 0, temperature = 0, pressure = 0, humidity = 0, gas_resistance = 0\<rparr>]"
             "\<lparr>bench_status = 0, bench_uid = 7, bench_queue =
                [\<lparr>status = 0xB0, gas_index = 3, temperature = 25, pressure = 1000, humidity = 40,
                  gas_resistance = 5000\<rparr>]\<rparr>"
             "bench_io []"]
  show ?thesis
    by (simp add: idle bench_poll_one_record[unfolded One_nat_def])
qed

section \<open>Properties of the start-up sequence\<close>

lemma parse_line_frame:
  "length (tempProf (fst (parse_line i raw pb))) = length (tempProf (fst pb))"
  "length (mulProf (fst (parse_line i raw pb))) = length (mulProf (fst pb))"
  by (simp_all add: parse_line_def Let_def)

lemma recv_burst_frame:
  "length (tempProf (fst (recv_burst i pb))) = length (tempProf (fst pb))
   \<and> length (mulProf (fst (recv_burst i pb))) = length (mulProf (fst pb))"
proof (induction i pb rule: recv_burst.induct)
  case (1 i pb)
  show ?case
  proof (cases "Serial_available (snd pb)")
    case True
    with 1 show ?thesis
      by (subst (1 2) recv_burst.simps) (simp add: parse_line_frame)
  next
    case False
    then show ?thesis
      by (subst (1 2) recv_burst.simps) simp
  qed
qed

lemma config_loop_frame:
  "config_loop i n pb = Some pb' \<Longrightarrow>
     length (tempProf (fst pb')) = length (tempProf (fst pb))
     \<and> length (mulProf (fst pb')) = length (mulProf (fst pb))"
proof (induction i n pb rule: config_loop.induct)
  case (1 i n pb)
  show ?case
  proof (cases "i < n")
    case False
    with "1.prems" show ?thesis
      by (subst (asm) config_loop.simps) simp
  next
    case True
    with "1.prems" obtain b1 where w: "wait_available (snd pb) = Some b1"
      and run: "config_loop (i + 1) n (recv_burst i (fst pb, b1)) = Some pb'"
      by (subst (asm) config_loop.simps) (auto split: option.splits)
    with "1.IH"[OF True w run] recv_burst_frame[of i "(fst pb, b1)"] show ?thesis
      by simp
  qed
qed

lemma recv_profile_frame:
  assumes "recv_profile b = Some (n, p, b')" and "rx b = (first, pending) # rest"
  shows "n = toInt first \<and> length (tempProf p) = nat n \<and> length (mulProf p) = nat n"
proof -
  have r: "readString (b\<lparr>avail := True\<rparr>) = (first, b\<lparr>rx := rest, avail := pending\<rparr>)"
    using assms(2) by (simp add: readString_def)
  from assms have "n = toInt first" and
    "config_loop 0 n (\<lparr>tempProf = replicate (nat n) None, mulProf = replicate (nat n) None\<rparr>,
        Serial_println (String_int n) (b\<lparr>rx := rest, avail := pending\<rparr>)) = Some (p, b')"
    by (auto simp: recv_profile_def wait_available_def r Let_def)
  with config_loop_frame[OF this(2)] show ?thesis
    by simp
qed

lemma wait_console_frame: "wait_console b = Some b0 \<Longrightarrow> rx b0 = rx b"
proof -
  have "rx ((delay 10 ^^ k) b) = rx b" for k
    by (induction k) (simp_all add: delay_def)
  then show "wait_console b = Some b0 \<Longrightarrow> rx b0 = rx b"
    by (auto simp: wait_console_def split: option.splits)
qed

lemma checkSensorStatus_frame:
  "checkSensorStatus L s b = Returns b' \<Longrightarrow> rx b' = rx b"
  "checkSensorStatus L s b = Halted b' \<Longrightarrow> checkStatus L s = BME68X_ERROR"
  by (auto simp: checkSensorStatus_def Serial_println_def halt_loop_never_returns Let_def
      split: if_splits)

text \<open>
  Claim C3. In the single-sensor sketch, every start-up that gets as far as the call
  hands \<open>setHeaterProf\<close> the profile length 10 together with two arrays of exactly N
  slots, N being the number received first in the handshake; so for N other than 10
  the length handed to the driver differs from the number of slots. The call is seen
  in the sensor object that start-up returns, or in the object whose Error status
  halted it afterwards; any other start-up halted on one of the two checks before the
  handshake.
\<close>

theorem C3_profile_length_is_always_10:
  assumes "sketch_setup L (s, b) = Some r" and "rx b = (first, pending) # rest"
  shows "let s2 = setTPH L (bme_begin L PIN_CS s);
             d = (ucast ((of_nat MEAS_DUR :: u32) - getMeasDur L (PARALLEL_MODE L) s2 div 1000) :: u16);
             N = toInt first
         in ((\<exists>h. r = Halted h)
               \<and> (checkStatus L (bme_begin L PIN_CS s) = BME68X_ERROR \<or> checkStatus L s2 = BME68X_ERROR))
          \<or> (\<exists>t m. length t = nat N \<and> length m = nat N
                 \<and> (N \<noteq> 10 \<longrightarrow> unat (10 :: u8) \<noteq> length t \<and> int (unat (10 :: u8)) \<noteq> N)
                 \<and> ((\<exists>b'. r = Returns (setOpMode L (PARALLEL_MODE L) (setHeaterProf L t m d 10 s2), b'))
                    \<or> ((\<exists>h. r = Halted h)
                         \<and> (checkStatus L (setHeaterProf L t m d 10 s2) = BME68X_ERROR
                            \<or> checkStatus L (setOpMode L (PARALLEL_MODE L) (setHeaterProf L t m d 10 s2))
                                = BME68X_ERROR))))"
proof -
  let ?s1 = "bme_begin L PIN_CS s"
  let ?s2 = "setTPH L ?s1"
  let ?d = "(ucast ((of_nat MEAS_DUR :: u32) - getMeasDur L (PARALLEL_MODE L) ?s2 div 1000) :: u16)"
  from assms(1) obtain b0 where w: "wait_console b = Some b0"
    by (auto simp: sketch_setup_def split: option.splits)
  note f0 = wait_console_frame[OF w]
  from assms(1) w have run1:
    "and_then (checkSensorStatus L ?s1 b0) (\<lambda>b1.
       and_then (checkSensorStatus L ?s2 b1) (\<lambda>b2.
         case recv_profile b2 of
           None \<Rightarrow> None
         | Some (profileLen, p, b3) \<Rightarrow>
             and_then (checkSensorStatus L (setHeaterProf L (tempProf p) (mulProf p) ?d 10 ?s2) b3)
               (\<lambda>b5. and_then
                        (checkSensorStatus L
                           (setOpMode L (PARALLEL_MODE L)
                              (setHeaterProf L (tempProf p) (mulProf p) ?d 10 ?s2)) b5)
                        (\<lambda>b6. Some (Returns
                           (setOpMode L (PARALLEL_MODE L)
                              (setHeaterProf L (tempProf p) (mulProf p) ?d 10 ?s2), b6)))))) = Some r"
    unfolding sketch_setup_def Let_def fst_conv snd_conv by simp
  show ?thesis
  proof (cases "checkSensorStatus L ?s1 b0")
    case (Halted h)
    with run1 checkSensorStatus_frame(2)[OF Halted] show ?thesis
      by (auto simp: and_then_def Let_def)
  next
    case c1: (Returns b1)
    note f1 = checkSensorStatus_frame(1)[OF c1]
    show ?thesis
    proof (cases "checkSensorStatus L ?s2 b1")
      case (Halted h)
      with run1 c1 checkSensorStatus_frame(2)[OF Halted] show ?thesis
        by (auto simp: and_then_def Let_def)
    next
      case c2: (Returns b2)
      note f2 = checkSensorStatus_frame(1)[OF c2]
      from run1 c1 c2 obtain n p b3 where rp: "recv_profile b2 = Some (n, p, b3)"
        by (auto simp: and_then_def split: option.splits)
      have rx2: "rx b2 = (first, pending) # rest"
        using f0 f1 f2 assms(2) by simp
      note fp = recv_profile_frame[OF rp rx2]
      let ?s3 = "setHeaterProf L (tempProf p) (mulProf p) ?d 10 ?s2"
      let ?s4 = "setOpMode L (PARALLEL_MODE L) ?s3"
      have sizes: "length (tempProf p) = nat (toInt first)" "length (mulProf p) = nat (toInt first)"
        using fp by simp_all
      have differ: "toInt first \<noteq> 10 \<longrightarrow>
          unat (10 :: u8) \<noteq> length (tempProf p) \<and> int (unat (10 :: u8)) \<noteq> toInt first"
        using sizes by auto
      from run1 c1 c2 rp have run3:
        "and_then (checkSensorStatus L ?s3 b3)
           (\<lambda>b5. and_then (checkSensorStatus L ?s4 b5) (\<lambda>b6. Some (Returns (?s4, b6)))) = Some r"
        by (simp add: and_then_def)
      have fin: "(\<exists>b'. r = Returns (?s4, b'))
                 \<or> ((\<exists>h. r = Halted h)
                      \<and> (checkStatus L ?s3 = BME68X_ERROR \<or> checkStatus L ?s4 = BME68X_ERROR))"
      proof (cases "checkSensorStatus L ?s3 b3")
        case (Halted h)
        with run3 checkSensorStatus_frame(2)[OF Halted] show ?thesis
          by (auto simp: and_then_def)
      next
        case c3: (Returns b5)
        show ?thesis
        proof (cases "checkSensorStatus L ?s4 b5")
          case (Halted h)
          with run3 c3 checkSensorStatus_frame(2)[OF Halted] show ?thesis
            by (auto simp: and_then_def)
        next
          case c4: (Returns b6)
          with run3 c3 show ?thesis
            by (auto simp: and_then_def)
        qed
      qed
      have call: "length (tempProf p) = nat (toInt first) \<and> length (mulProf p) = nat (toInt first)
            \<and> (toInt first \<noteq> 10 \<longrightarrow>
                  unat (10 :: u8) \<noteq> length (tempProf p) \<and> int (unat (10 :: u8)) \<noteq> toInt first)
            \<and> ((\<exists>b'. r = Returns (setOpMode L (PARALLEL_MODE L)
                          (setHeaterProf L (tempProf p) (mulProf p) ?d 10 ?s2), b'))
               \<or> ((\<exists>h. r = Halted h)
                    \<and> (checkStatus L (setHeaterProf L (tempProf p) (mulProf p) ?d 10 ?s2) = BME68X_ERROR
                       \<or> checkStatus L (setOpMode L (PARALLEL_MODE L)
                            (setHeaterProf L (tempProf p) (mulProf p) ?d 10 ?s2)) = BME68X_ERROR)))"
        using sizes differ fin by simp
      show ?thesis
        unfolding Let_def
        by (rule disjI2, rule exI[of _ "tempProf p"], rule exI[of _ "mulProf p"], rule call)
    qed
  qed
qed

lemma probe_handshake:
  "recv_profile (bench_io [(''3'', False), (''320,5'', False), (''100,2'', False), (''200,10'', False)])
   = Some (3, \<lparr>tempProf = [Some 320, Some 100, Some 200], mulProf = [Some 5, Some 2, Some 10]\<rparr>,
           (bench_io [])\<lparr>tx := ''3'' @ [CR, LF] @ ''320,5,0'' @ [CR, LF] @ ''100,2,1'' @ [CR, LF]
                                  @ ''200,10,2'' @ [CR, LF]\<rparr>)"
  by code_simp

lemma probe_setup:
  "sketch_setup probe_lib ([], bench_io [(''3'', False), (''320,5'', False), (''100,2'', False),
                                           (''200,10'', False)])
     = Some (Returns ([([Some 320, Some 100, Some 200], [Some 5, Some 2, Some 10], 140, 10)],
         (bench_io [])\<lparr>tx := ''3'' @ [CR, LF] @ ''320,5,0'' @ [CR, LF] @ ''100,2,1'' @ [CR, LF]
                                @ ''200,10,2'' @ [CR, LF]\<rparr>))"
proof -
  have w: "wait_console (bench_io [(''3'', False), (''320,5'', False), (''100,2'', False),
                                    (''200,10'', False)])
            = Some (bench_io [(''3'', False), (''320,5'', False), (''100,2'', False), (''200,10'', False)])"
    by (simp add: wait_console_def bench_io_def)
  show ?thesis
    unfolding sketch_setup_def Let_def fst_conv snd_conv w
    by (simp add: probe_lib_def checkSensorStatus_def and_then_def probe_handshake MEAS_DUR_def)
qed

theorem C3_witness:
  "sketch_setup probe_lib ([], bench_io [(''3'', False), (''320,5'', False), (''100,2'', False),
                                           (''200,10'', False)])
     = Some (Returns ([([Some 320, Some 100, Some 200], [Some 5, Some 2, Some 10], 140, 10)],
         (bench_io [])\<lparr>tx := ''3'' @ [CR, LF] @ ''320,5,0'' @ [CR, LF] @ ''100,2,1'' @ [CR, LF]
                                @ ''200,10,2'' @ [CR, LF]\<rparr>))
   \<and> rx (bench_io [(''3'', False), (''320,5'', False), (''100,2'', False), (''200,10'', False)])
       = (''3'', False) # [(''320,5'', False), (''100,2'', False), (''200,10'', False)]
   \<and> toInt ''3'' \<noteq> 10
   \<and> (\<exists>t m. length t = 3 \<and> length m = 3 \<and> unat (10 :: u8) \<noteq> length t
          \<and> [([Some 320, Some 100, Some 200], [Some 5, Some 2, Some 10], 140, 10)]
             = setOpMode probe_lib (PARALLEL_MODE probe_lib)
                 (setHeaterProf probe_lib t m 140 10 (setTPH probe_lib (bme_begin probe_lib PIN_CS []))))"
proof -
  have n: "toInt ''3'' = 3"
    by code_simp
  have first: "rx (bench_io [(''3'', False), (''320,5'', False), (''100,2'', False), (''200,10'', False)])
                 = (''3'', False) # [(''320,5'', False), (''100,2'', False), (''200,10'', False)]"
    by (simp add: bench_io_def)
  have d: "getMeasDur probe_lib m s = 0" "checkStatus probe_lib s = 0" for m s
    by (simp_all add: probe_lib_def)
  from C3_profile_length_is_always_10[OF probe_setup first]
  have "\<exists>t m. length t = 3 \<and> length m = 3 \<and> unat (10 :: u8) \<noteq> length t
          \<and> [([Some 320, Some 100, Some 200], [Some 5, Some 2, Some 10], 140, 10)]
             = setOpMode probe_lib (PARALLEL_MODE probe_lib)
                 (setHeaterProf probe_lib t m 140 10 (setTPH probe_lib (bme_begin probe_lib PIN_CS [])))"
    by (simp add: Let_def n d MEAS_DUR_def BME68X_ERROR_def)
  with probe_setup first n show ?thesis
    by simp
qed

end
